theory Spec2Isabelle
  imports
    Main
    "HOL-Library.Sublist"
    "HOL-Library.List_Lexorder"
    "HOL-Library.Product_Lexorder"
    "HOL-Library.Multiset"
    "HOL-Library.Code_Target_Nat"
begin

text \<open>
  A model of the link-resolution and change-detection engine of \<open>moodle_scan.py\<close>: the
  link extractor, the activity resolver, the metadata resolver and the course scan, with
  the properties its specification states for them. Login, the state file and the
  Telegram report are outside the model.
\<close>

section \<open>Python strings\<close>

text \<open>
  A Python \<open>str\<close> is a sequence of Unicode code points; it is modelled as a list of
  naturals, one per code point, so that non-ASCII course labels are ordinary inputs.
  Comparison of strings is lexicographic on code points, which is the order
  \<open>HOL-Library.List_Lexorder\<close> puts on \<open>nat list\<close>. A literal of the source is written
  \<open>U ''...''\<close>.
\<close>

type_synonym ustr = "nat list"

definition U :: "string \<Rightarrow> ustr" where
  "U s = map of_char s"

text \<open>
  \<open>a in b\<close> on strings is the contiguous-substring test, \<open>sublist a b\<close> of
  \<open>HOL-Library.Sublist\<close>.

  \<open>str.isspace\<close> per code point: the characters \<open>str.strip()\<close> removes when it is called
  without an argument.
\<close>

definition is_space :: "nat \<Rightarrow> bool" where
  "is_space c =
     ((9 \<le> c \<and> c \<le> 13) \<or> (28 \<le> c \<and> c \<le> 32) \<or> c = 133 \<or> c = 160 \<or> c = 5760
      \<or> (8192 \<le> c \<and> c \<le> 8202) \<or> c = 8232 \<or> c = 8233 \<or> c = 8239 \<or> c = 8287
      \<or> c = 12288)"

definition lstrip :: "ustr \<Rightarrow> ustr" where
  "lstrip s = dropWhile is_space s"

definition rstrip :: "ustr \<Rightarrow> ustr" where
  "rstrip s = rev (dropWhile is_space (rev s))"

definition strip :: "ustr \<Rightarrow> ustr" where
  "strip s = rstrip (lstrip s)"

text \<open>
  \<open>s.split(sep, 1)\<close> for a separator that occurs in \<open>s\<close>: the text before the first
  occurrence and the text after it. \<open>None\<close> when the separator does not occur
  (the source only splits under the guard \<open>sep in s\<close>).
\<close>

fun split_first :: "ustr \<Rightarrow> ustr \<Rightarrow> (ustr \<times> ustr) option" where
  "split_first sep [] = (if sep = [] then Some ([], []) else None)"
| "split_first sep (c # cs) =
     (if prefix sep (c # cs) then Some ([], drop (length sep) (c # cs))
      else (case split_first sep cs of
              None \<Rightarrow> None
            | Some (l, r) \<Rightarrow> Some (c # l, r)))"

text \<open>\<open>s.rsplit("/", 1)[-1]\<close>: the text after the last slash, all of \<open>s\<close> when there is none.\<close>

definition after_last_slash :: "ustr \<Rightarrow> ustr" where
  "after_last_slash s = rev (takeWhile (\<lambda>c. c \<noteq> 47) (rev s))"

text \<open>
  \<open>list(dict.fromkeys(xs))\<close>: duplicates removed, the first occurrence of each element kept
  in place. (\<open>remdups\<close> of the list library keeps the last occurrence instead.)
\<close>

fun fromkeys_acc :: "'a list \<Rightarrow> 'a list \<Rightarrow> 'a list" where
  "fromkeys_acc acc [] = acc"
| "fromkeys_acc acc (x # xs) =
     (if x \<in> set acc then fromkeys_acc acc xs else fromkeys_acc (acc @ [x]) xs)"

definition fromkeys :: "'a list \<Rightarrow> 'a list" where
  "fromkeys xs = fromkeys_acc [] xs"

section \<open>Library functions the source imports\<close>

text \<open>
  The source calls into the standard library, \<open>requests\<close> and \<open>bs4\<close>. Their tables and
  parsers are not part of the repository; each is a field of the record \<open>pylib\<close>, and every
  theorem holds for all values of these fields.

  \<^item> \<open>re_digit\<close>: the characters \<open>\d\<close> matches in a \<open>str\<close> pattern (Unicode category Nd);
  \<^item> \<open>str_lower\<close>: \<open>str.lower\<close>;
  \<^item> \<open>urlparse_path\<close>: \<open>urlparse(url).path\<close>;
  \<^item> \<open>unquote\<close>: \<open>urllib.parse.unquote\<close>;
  \<^item> \<open>parsedate_to_datetime\<close>: the wall-clock time the header states and the UTC offset it
     states, if any (\<open>None\<close> for the naive result); \<open>None\<close> when the call raises;
  \<^item> \<open>il_fromutc\<close>: \<open>ZoneInfo("Asia/Jerusalem").fromutc\<close> on a UTC wall-clock time, giving the
     Israel wall-clock time and its \<open>fold\<close>; \<open>None\<close> when the date arithmetic overflows;
  \<^item> \<open>il_utcoffset\<close>: the UTC offset of an Israel wall-clock time with the given \<open>fold\<close>;
  \<^item> \<open>select_a_href\<close>: for a page's text, what \<open>BeautifulSoup(html, "html.parser")\<close> gives for
     \<open>select("a[href]")\<close>: one pair per anchor that has an \<open>href\<close> attribute, in document
     order, of \<open>a.get("href")\<close> and \<open>a.get_text(" ", strip=True)\<close>.

  Times are integers in microseconds.
\<close>

record pylib =
  re_digit :: "nat \<Rightarrow> bool"
  str_lower :: "ustr \<Rightarrow> ustr"
  urlparse_path :: "ustr \<Rightarrow> ustr"
  unquote :: "ustr \<Rightarrow> ustr"
  parsedate_to_datetime :: "ustr \<Rightarrow> (int \<times> int option) option"
  il_fromutc :: "int \<Rightarrow> (int \<times> bool) option"
  il_utcoffset :: "int \<Rightarrow> bool \<Rightarrow> int"
  select_a_href :: "ustr \<Rightarrow> (ustr \<times> ustr) list"

section \<open>Helpers of the scanner\<close>

text \<open>\<open>re.fullmatch(r"\d{6,}", s)\<close>: all of \<open>s\<close> is six or more digits.\<close>

definition fullmatch_digits6 :: "pylib \<Rightarrow> ustr \<Rightarrow> bool" where
  "fullmatch_digits6 L s = (6 \<le> length s \<and> list_all (re_digit L) s)"

definition SEP_DASH :: ustr where
  "SEP_DASH = U '' - ''"

text \<open>\<open>_course_display_name\<close> (lines 86 to 96 of \<open>moodle_scan.py\<close>).\<close>

definition course_display_name :: "pylib \<Rightarrow> ustr \<Rightarrow> ustr" where
  "course_display_name L raw =
     (let s = strip raw in
      if sublist SEP_DASH s then
        (case split_first SEP_DASH s of
           None \<Rightarrow> s
         | Some (left, right) \<Rightarrow>
             if fullmatch_digits6 L (strip left) then strip right else s)
      else s)"

text \<open>\<open>_safe_filename_from_url\<close> (lines 99 to 103): \<open>name or url\<close> falls back to the whole URL.\<close>

definition safe_filename_from_url :: "pylib \<Rightarrow> ustr \<Rightarrow> ustr" where
  "safe_filename_from_url L url =
     (let path = urlparse_path L url;
          name = after_last_slash path;
          name' = strip (unquote L name)
      in if name' = [] then url else name')"

section \<open>Timestamps\<close>

text \<open>
  An aware \<open>datetime\<close>: its wall-clock fields (as microseconds), its \<open>fold\<close> and its
  \<open>tzinfo\<close>, which in this program is either a fixed offset (\<open>timezone.utc\<close> is offset 0, and
  \<open>parsedate_to_datetime\<close> builds fixed offsets) or the one object \<open>TZ_IL\<close>.
\<close>

datatype tzinfo = Fixed_offset int | TZ_IL

record datetime =
  wall :: int
  dt_fold :: bool
  tz :: tzinfo

definition utcoffset :: "pylib \<Rightarrow> datetime \<Rightarrow> int" where
  "utcoffset L d =
     (case tz d of Fixed_offset off \<Rightarrow> off | TZ_IL \<Rightarrow> il_utcoffset L (wall d) (dt_fold d))"

text \<open>
  \<open>a > b\<close> on aware datetimes: when both carry the same \<open>tzinfo\<close> the wall-clock fields are
  compared and \<open>fold\<close> is ignored; otherwise the UTC instants are compared.
\<close>

definition dt_gt :: "pylib \<Rightarrow> datetime \<Rightarrow> datetime \<Rightarrow> bool" where
  "dt_gt L a b =
     (if tz a = tz b then wall b < wall a
      else wall b - utcoffset L b < wall a - utcoffset L a)"

text \<open>\<open>dt.astimezone(TZ_IL)\<close> for a datetime with a fixed offset; \<open>None\<close> when it raises.\<close>

definition astimezone_il :: "pylib \<Rightarrow> int \<Rightarrow> int \<Rightarrow> datetime option" where
  "astimezone_il L w off =
     (case il_fromutc L (w - off) of
        None \<Rightarrow> None
      | Some (w', f) \<Rightarrow> Some \<lparr>wall = w', dt_fold = f, tz = TZ_IL\<rparr>)"

section \<open>The HTTP session\<close>

text \<open>
  A response as far as the source reads it: the status code, the final URL after
  redirects, the value of the \<open>Last-Modified\<close> header if the (case-insensitive) header
  dictionary has one, and the body text.
\<close>

record response =
  status_code :: int
  resp_url :: ustr
  last_modified_header :: "ustr option"
  body_text :: ustr

text \<open>
  The three requests the source issues: \<open>session.head(url, allow_redirects=True, timeout=30)\<close>,
  \<open>session.get(url, allow_redirects=True, timeout=30, stream=True)\<close> and
  \<open>session.get(url, allow_redirects=True, timeout=40)\<close>.
\<close>

datatype request = Head ustr | Get_stream ustr | Get ustr

text \<open>
  The session answers a request depending on everything requested before: a function of the
  history of requests, \<open>None\<close> when the call raises. The history is the state the scanner
  threads through its calls.
\<close>

type_synonym session = "request list \<Rightarrow> request \<Rightarrow> response option"

definition send :: "session \<Rightarrow> request \<Rightarrow> request list \<Rightarrow> response option \<times> request list" where
  "send S q h = (S h q, h @ [q])"

text \<open>\<open>bool(r)\<close> of a \<open>requests.Response\<close> is \<open>r.ok\<close>: the status is not in 400..599.\<close>

definition response_ok :: "response \<Rightarrow> bool" where
  "response_ok r = (\<not> (400 \<le> status_code r \<and> status_code r < 600))"

text \<open>\<open>_http_head_follow\<close> (lines 137 to 144) and \<open>_http_get_html\<close> (lines 147 to 154).\<close>

definition http_head_follow ::
  "session \<Rightarrow> ustr \<Rightarrow> request list \<Rightarrow> response option \<times> request list" where
  "http_head_follow S u h =
     (case send S (Head u) h of
        (None, h1) \<Rightarrow> (None, h1)
      | (Some r, h1) \<Rightarrow>
          if status_code r = 403 \<or> status_code r = 405
             \<or> (400 \<le> status_code r \<and> last_modified_header r = None)
          then send S (Get_stream u) h1
          else (Some r, h1))"

definition http_get_html ::
  "session \<Rightarrow> ustr \<Rightarrow> request list \<Rightarrow> ustr option \<times> request list" where
  "http_get_html S u h =
     (case send S (Get u) h of
        (None, h1) \<Rightarrow> (None, h1)
      | (Some r, h1) \<Rightarrow> if 400 \<le> status_code r then (None, h1) else (Some (body_text r), h1))"

section \<open>Metadata resolver\<close>

text \<open>
  \<open>_parse_http_last_modified\<close> (lines 106 to 116), on the value of the header, and
  \<open>_get_last_modified_for_file\<close> (lines 217 to 221). A naive result of the parser is given
  \<open>timezone.utc\<close>, that is offset 0, before the conversion; every exception inside the
  \<open>try\<close> gives \<open>None\<close>.
\<close>

definition parse_http_last_modified :: "pylib \<Rightarrow> ustr option \<Rightarrow> datetime option" where
  "parse_http_last_modified L hdr =
     (case hdr of
        None \<Rightarrow> None
      | Some lm \<Rightarrow>
          if lm = [] then None
          else (case parsedate_to_datetime L lm of
                  None \<Rightarrow> None
                | Some (w, None) \<Rightarrow> astimezone_il L w 0
                | Some (w, Some off) \<Rightarrow> astimezone_il L w off))"

definition get_last_modified_for_file ::
  "pylib \<Rightarrow> session \<Rightarrow> ustr \<Rightarrow> request list \<Rightarrow> datetime option \<times> request list" where
  "get_last_modified_for_file L S file_url h =
     (case http_head_follow S file_url h of
        (None, h1) \<Rightarrow> (None, h1)
      | (Some r, h1) \<Rightarrow>
          if \<not> response_ok r then (None, h1)
          else (parse_http_last_modified L (last_modified_header r), h1))"

section \<open>Link extractor\<close>

definition PLUGINFILE :: ustr where
  "PLUGINFILE = U ''pluginfile.php''"

definition PLUGINFILE_URL :: ustr where
  "PLUGINFILE_URL = U ''moodle.tau.ac.il/pluginfile.php/''"

definition RESOURCE_VIEW_URL :: ustr where
  "RESOURCE_VIEW_URL = U ''moodle.tau.ac.il/mod/resource/view.php''"

definition FOLDER_VIEW_URL :: ustr where
  "FOLDER_VIEW_URL = U ''moodle.tau.ac.il/mod/folder/view.php''"

definition ASSIGN_VIEW_URL :: ustr where
  "ASSIGN_VIEW_URL = U ''moodle.tau.ac.il/mod/assign/view.php''"

definition RESOURCE_VIEW :: ustr where
  "RESOURCE_VIEW = U ''mod/resource/view.php''"

definition FOLDER_VIEW :: ustr where
  "FOLDER_VIEW = U ''mod/folder/view.php''"

definition ASSIGN_VIEW :: ustr where
  "ASSIGN_VIEW = U ''mod/assign/view.php''"

text \<open>
  \<open>_extract_pluginfile_links_from_html\<close> (lines 157 to 166).
  \<open>soup.select("a[href*='pluginfile.php']")\<close> keeps the anchors whose \<open>href\<close> value contains
  the text; the loop then skips an empty \<open>href\<close> and strips the anchor text once more.
\<close>

fun extract_pluginfile_loop :: "(ustr \<times> ustr) list \<Rightarrow> (ustr \<times> ustr) list \<Rightarrow> (ustr \<times> ustr) list" where
  "extract_pluginfile_loop out [] = out"
| "extract_pluginfile_loop out ((href, txt) # as) =
     (if href = [] then extract_pluginfile_loop out as
      else extract_pluginfile_loop (out @ [(href, strip txt)]) as)"

definition extract_pluginfile_links_from_html :: "pylib \<Rightarrow> ustr \<Rightarrow> (ustr \<times> ustr) list" where
  "extract_pluginfile_links_from_html L html =
     extract_pluginfile_loop []
       (filter (\<lambda>(href, txt). sublist PLUGINFILE href) (select_a_href L html))"

text \<open>\<open>_extract_activity_links_from_course_html\<close> (lines 169 to 190): the loop over \<open>select("a[href]")\<close>.\<close>

fun extract_activity_loop ::
  "ustr set \<times> ustr set \<Rightarrow> (ustr \<times> ustr) list \<Rightarrow> ustr set \<times> ustr set" where
  "extract_activity_loop (pluginfiles, activity_pages) [] = (pluginfiles, activity_pages)"
| "extract_activity_loop (pluginfiles, activity_pages) ((href, txt) # as) =
     (if href = [] then extract_activity_loop (pluginfiles, activity_pages) as
      else if sublist PLUGINFILE_URL href
        then extract_activity_loop (insert href pluginfiles, activity_pages) as
      else if sublist RESOURCE_VIEW_URL href
        then extract_activity_loop (pluginfiles, insert href activity_pages) as
      else if sublist FOLDER_VIEW_URL href
        then extract_activity_loop (pluginfiles, insert href activity_pages) as
      else if sublist ASSIGN_VIEW_URL href
        then extract_activity_loop (pluginfiles, insert href activity_pages) as
      else extract_activity_loop (pluginfiles, activity_pages) as)"

definition extract_activity_links_from_course_html :: "pylib \<Rightarrow> ustr \<Rightarrow> ustr set \<times> ustr set" where
  "extract_activity_links_from_course_html L html =
     extract_activity_loop ({}, {}) (select_a_href L html)"

section \<open>Activity resolver\<close>

text \<open>\<open>_resolve_resource_view_to_file\<close> (lines 193 to 214); \<open>probe_url\<close> is its \<open>test_url\<close>.\<close>

definition REDIRECT_EQ :: ustr where
  "REDIRECT_EQ = U ''redirect=''"

definition probe_url :: "ustr \<Rightarrow> ustr" where
  "probe_url view_url =
     (if \<not> sublist REDIRECT_EQ view_url then
        (let joiner = (if sublist (U ''?'') view_url then U ''&'' else U ''?'')
         in view_url @ joiner @ U ''redirect=1'')
      else view_url)"

text \<open>The second half of the resolver: fetch the activity page and scrape its file links.\<close>

definition resolve_by_scrape ::
  "pylib \<Rightarrow> session \<Rightarrow> ustr \<Rightarrow> request list \<Rightarrow> ustr list \<times> request list" where
  "resolve_by_scrape L S view_url h =
     (case http_get_html S view_url h of
        (None, h1) \<Rightarrow> ([], h1)
      | (Some html, h1) \<Rightarrow>
          if html = [] then ([], h1)
          else (fromkeys (map fst (extract_pluginfile_links_from_html L html)), h1))"

definition resolve_resource_view_to_file ::
  "pylib \<Rightarrow> session \<Rightarrow> ustr \<Rightarrow> request list \<Rightarrow> ustr list \<times> request list" where
  "resolve_resource_view_to_file L S view_url h =
     (let test_url = probe_url view_url in
      case http_head_follow S test_url h of
        (None, h1) \<Rightarrow> resolve_by_scrape L S view_url h1
      | (Some r, h1) \<Rightarrow>
          if resp_url r \<noteq> [] \<and> sublist PLUGINFILE (resp_url r) then ([resp_url r], h1)
          else resolve_by_scrape L S view_url h1)"

text \<open>\<open>_normalize_link_for_print\<close> (lines 224 to 231).\<close>

definition normalize_link_for_print :: "ustr \<Rightarrow> ustr \<Rightarrow> ustr" where
  "normalize_link_for_print original_link pluginfile_link =
     (if sublist RESOURCE_VIEW original_link
         \<or> sublist FOLDER_VIEW original_link
         \<or> sublist ASSIGN_VIEW original_link
      then original_link
      else pluginfile_link)"

section \<open>The scan\<close>

text \<open>The dataclass \<open>FoundFile\<close> (lines 73 to 79) and \<open>scan_all\<close> (lines 517 to 585).\<close>

record FoundFile =
  course_name_raw :: ustr
  course_name_display :: ustr
  file_name :: ustr
  last_modified_il :: datetime
  link :: ustr

text \<open>
  The state of \<open>scan_all\<close>: the list \<open>found\<close>, the set \<open>seen_files\<close> and the history of the
  session. Two more fields only record what happened and are never read by the scan:
  \<open>lookups\<close> lists, in order, the pair (course URL, file URL) of every call of
  \<open>_get_last_modified_for_file\<close>, and \<open>origins\<close> holds, for each element of \<open>found\<close> at the same
  position, where it came from.
\<close>

datatype discovery = Direct_link | Resource_view ustr | Scraped ustr ustr

record origin =
  origin_course_url :: ustr
  origin_file_url :: ustr
  origin_path :: discovery

record scan_state =
  found :: "FoundFile list"
  seen_files :: "(ustr \<times> ustr) set"
  history :: "request list"
  lookups :: "(ustr \<times> ustr) list"
  origins :: "origin list"

text \<open>
  The block the source repeats in its three loops: the check against \<open>seen_files\<close>, the
  metadata lookup and the comparison with the watermark. The loops differ in the file name
  and the link they store.
\<close>

definition visit_file ::
  "pylib \<Rightarrow> session \<Rightarrow> datetime \<Rightarrow> ustr \<Rightarrow> ustr \<Rightarrow> ustr \<Rightarrow> ustr \<Rightarrow> discovery \<Rightarrow> ustr \<Rightarrow> ustr
     \<Rightarrow> scan_state \<Rightarrow> scan_state" where
  "visit_file L S reference_dt raw disp course_url pf how fname lnk st =
     (let key = (course_url, pf) in
      if key \<in> seen_files st then st
      else
        (case get_last_modified_for_file L S pf (history st) of
           (lm, h1) \<Rightarrow>
             (let st1 = st\<lparr>seen_files := insert key (seen_files st), history := h1,
                            lookups := lookups st @ [key]\<rparr>
              in case lm of
                   None \<Rightarrow> st1
                 | Some t \<Rightarrow>
                     if dt_gt L t reference_dt
                     then st1\<lparr>found := found st1 @
                                 [\<lparr>course_name_raw = raw, course_name_display = disp,
                                   file_name = fname, last_modified_il = t, link = lnk\<rparr>],
                               origins := origins st1 @
                                 [\<lparr>origin_course_url = course_url, origin_file_url = pf,
                                   origin_path = how\<rparr>]\<rparr>
                     else st1)))"

text \<open>
  The three loop bodies: direct file links (lines 530 to 542), files a resource view
  resolves to (lines 547 to 560) and files scraped from a folder or assignment page
  (lines 566 to 582).
\<close>

definition visit_direct ::
  "pylib \<Rightarrow> session \<Rightarrow> datetime \<Rightarrow> ustr \<Rightarrow> ustr \<Rightarrow> ustr \<Rightarrow> ustr \<Rightarrow> scan_state \<Rightarrow> scan_state" where
  "visit_direct L S reference_dt raw disp course_url pf st =
     visit_file L S reference_dt raw disp course_url pf Direct_link
       (safe_filename_from_url L pf) pf st"

definition visit_resolved ::
  "pylib \<Rightarrow> session \<Rightarrow> datetime \<Rightarrow> ustr \<Rightarrow> ustr \<Rightarrow> ustr \<Rightarrow> ustr \<Rightarrow> ustr \<Rightarrow> scan_state \<Rightarrow> scan_state" where
  "visit_resolved L S reference_dt raw disp course_url act pf st =
     visit_file L S reference_dt raw disp course_url pf (Resource_view act)
       (safe_filename_from_url L pf) (normalize_link_for_print act pf) st"

definition visit_scraped ::
  "pylib \<Rightarrow> session \<Rightarrow> datetime \<Rightarrow> ustr \<Rightarrow> ustr \<Rightarrow> ustr \<Rightarrow> ustr \<Rightarrow> ustr \<times> ustr
     \<Rightarrow> scan_state \<Rightarrow> scan_state" where
  "visit_scraped L S reference_dt raw disp course_url act item st =
     (case item of
        (pf, txt) \<Rightarrow>
          if \<not> sublist PLUGINFILE pf then st
          else visit_file L S reference_dt raw disp course_url pf (Scraped act txt)
                 (if strip txt \<noteq> [] then strip txt else safe_filename_from_url L pf)
                 (normalize_link_for_print act pf) st)"

text \<open>One iteration of \<open>for act in sorted(activity_pages)\<close> (lines 544 to 582).\<close>

definition visit_activity ::
  "pylib \<Rightarrow> session \<Rightarrow> datetime \<Rightarrow> ustr \<Rightarrow> ustr \<Rightarrow> ustr \<Rightarrow> ustr \<Rightarrow> scan_state \<Rightarrow> scan_state" where
  "visit_activity L S reference_dt raw disp course_url act st =
     (if sublist RESOURCE_VIEW act then
        (case resolve_resource_view_to_file L S act (history st) of
           (pf_urls, h1) \<Rightarrow>
             fold (visit_resolved L S reference_dt raw disp course_url act) pf_urls
               (st\<lparr>history := h1\<rparr>))
      else
        (case http_get_html S act (history st) of
           (None, h1) \<Rightarrow> st\<lparr>history := h1\<rparr>
         | (Some act_html, h1) \<Rightarrow>
             if act_html = [] then st\<lparr>history := h1\<rparr>
             else fold (visit_scraped L S reference_dt raw disp course_url act)
                    (extract_pluginfile_links_from_html L act_html)
                    (st\<lparr>history := h1\<rparr>)))"

text \<open>One iteration of \<open>for course_name_raw, course_url in courses\<close> (lines 521 to 582).\<close>

definition scan_course ::
  "pylib \<Rightarrow> session \<Rightarrow> datetime \<Rightarrow> ustr \<times> ustr \<Rightarrow> scan_state \<Rightarrow> scan_state" where
  "scan_course L S reference_dt course st =
     (case course of
        (raw, course_url) \<Rightarrow>
          (let disp = course_display_name L raw in
           case http_get_html S course_url (history st) of
             (None, h1) \<Rightarrow> st\<lparr>history := h1\<rparr>
           | (Some html, h1) \<Rightarrow>
               if html = [] then st\<lparr>history := h1\<rparr>
               else
                 (case extract_activity_links_from_course_html L html of
                    (pluginfiles, activity_pages) \<Rightarrow>
                      fold (visit_activity L S reference_dt raw disp course_url)
                        (sorted_list_of_set activity_pages)
                        (fold (visit_direct L S reference_dt raw disp course_url)
                           (sorted_list_of_set pluginfiles)
                           (st\<lparr>history := h1\<rparr>)))))"

definition initial_state :: scan_state where
  "initial_state = \<lparr>found = [], seen_files = {}, history = [], lookups = [], origins = []\<rparr>"

definition scan_courses ::
  "pylib \<Rightarrow> session \<Rightarrow> (ustr \<times> ustr) list \<Rightarrow> datetime \<Rightarrow> scan_state" where
  "scan_courses L S courses reference_dt = fold (scan_course L S reference_dt) courses initial_state"

text \<open>
  The key of the final sort. Every element of \<open>found\<close> carries the one \<open>tzinfo\<close> object
  \<open>TZ_IL\<close> (lemma \<open>found_tz\<close> below), so Python compares the timestamps of two keys by
  their wall-clock fields.
\<close>

definition sort_key_of :: "pylib \<Rightarrow> FoundFile \<Rightarrow> ustr \<times> int \<times> ustr" where
  "sort_key_of L x = (course_name_display x, wall (last_modified_il x), str_lower L (file_name x))"

definition scan_all ::
  "pylib \<Rightarrow> session \<Rightarrow> (ustr \<times> ustr) list \<Rightarrow> datetime \<Rightarrow> FoundFile list" where
  "scan_all L S courses reference_dt =
     sort_key (sort_key_of L) (found (scan_courses L S courses reference_dt))"

section \<open>Auxiliary definitions\<close>

text \<open>What the link extractor puts into its second set: an activity pattern, and not the
  file-serving pattern.\<close>

definition is_activity_href :: "ustr \<Rightarrow> bool" where
  "is_activity_href h =
     (\<not> sublist PLUGINFILE_URL h \<and>
      (sublist RESOURCE_VIEW_URL h \<or> sublist FOLDER_VIEW_URL h \<or> sublist ASSIGN_VIEW_URL h))"

text \<open>The deduplication key of a record's origin.\<close>

definition origin_key :: "origin \<Rightarrow> ustr \<times> ustr" where
  "origin_key og = (origin_course_url og, origin_file_url og)"

text \<open>
  What a record stores for each way of discovering its file. The label of a scraped
  anchor is the text the label-aware extractor returned for it.
\<close>

definition record_matches_origin :: "pylib \<Rightarrow> FoundFile \<Rightarrow> origin \<Rightarrow> bool" where
  "record_matches_origin L r og =
     (case origin_path og of
        Direct_link \<Rightarrow>
          link r = origin_file_url og
          \<and> file_name r = safe_filename_from_url L (origin_file_url og)
      | Resource_view act \<Rightarrow>
          link r = act
          \<and> file_name r = safe_filename_from_url L (origin_file_url og)
      | Scraped act label \<Rightarrow>
          link r = act
          \<and> file_name r =
               (if strip label \<noteq> [] then strip label
                else safe_filename_from_url L (origin_file_url og)))"

subsection \<open>A small portal, for concrete runs\<close>

text \<open>
  One course page with two direct files, two resource views, a folder and a forum link.
  The first resource view redirects to the first direct file; the folder page lists a
  labelled file twice, a file without metadata, and the first direct file again.
  A second course page links one file whose path ends in a slash, and a third page has a
  link that contains the file-serving pattern and the folder pattern at once.
  The library parameters are stand-ins that agree with the Python library on the few
  strings used here.
\<close>

definition ascii_digit :: "nat \<Rightarrow> bool" where
  "ascii_digit c = (48 \<le> c \<and> c \<le> 57)"

definition ascii_lower :: "ustr \<Rightarrow> ustr" where
  "ascii_lower s = map (\<lambda>c. if 65 \<le> c \<and> c \<le> 90 then c + 32 else c) s"

text \<open>The path of an absolute URL that has no parameters: the text from the first slash
  after the authority up to the query or the fragment.\<close>

definition plain_path :: "ustr \<Rightarrow> ustr" where
  "plain_path u =
     (case split_first (U ''://'') u of
        None \<Rightarrow> takeWhile (\<lambda>c. c \<noteq> 63 \<and> c \<noteq> 35) u
      | Some (scheme, rest) \<Rightarrow>
          takeWhile (\<lambda>c. c \<noteq> 63 \<and> c \<noteq> 35) (dropWhile (\<lambda>c. c \<noteq> 47) rest))"

definition T0 :: int where
  "T0 = 63839664000000000"

definition HOUR :: int where
  "HOUR = 3600000000"

definition demo_course_url :: ustr where
  "demo_course_url = U ''https://moodle.tau.ac.il/course/view.php?id=1''"

definition demo_course2_url :: ustr where
  "demo_course2_url = U ''https://moodle.tau.ac.il/course/view.php?id=2''"

definition demo_pf1 :: ustr where
  "demo_pf1 = U ''https://moodle.tau.ac.il/pluginfile.php/1/a.pdf''"

definition demo_pf2 :: ustr where
  "demo_pf2 = U ''https://moodle.tau.ac.il/pluginfile.php/2/b.pdf''"

definition demo_pf3 :: ustr where
  "demo_pf3 = U ''https://moodle.tau.ac.il/pluginfile.php/3/c.pdf''"

definition demo_pf4 :: ustr where
  "demo_pf4 = U ''https://moodle.tau.ac.il/pluginfile.php/4/d.pdf''"

definition demo_pf5 :: ustr where
  "demo_pf5 = U ''https://moodle.tau.ac.il/pluginfile.php/5/e.pdf''"

definition demo_pf6 :: ustr where
  "demo_pf6 = U ''https://moodle.tau.ac.il/pluginfile.php/6/f.pdf''"

definition demo_slash :: ustr where
  "demo_slash = U ''https://moodle.tau.ac.il/pluginfile.php/7/''"

definition demo_res1 :: ustr where
  "demo_res1 = U ''https://moodle.tau.ac.il/mod/resource/view.php?id=7''"

definition demo_res2 :: ustr where
  "demo_res2 = U ''https://moodle.tau.ac.il/mod/resource/view.php?id=8''"


definition demo_folder :: ustr where
  "demo_folder = U ''https://moodle.tau.ac.il/mod/folder/view.php?id=9''"

definition demo_forum :: ustr where
  "demo_forum = U ''https://moodle.tau.ac.il/mod/forum/view.php?id=3''"

definition demo_mixed :: ustr where
  "demo_mixed = U ''https://moodle.tau.ac.il/pluginfile.php/9/moodle.tau.ac.il/mod/folder/view.php''"

definition demo_anchors :: "ustr \<Rightarrow> (ustr \<times> ustr) list" where
  "demo_anchors page =
     (if page = U ''course page'' then
        [(demo_pf1, U ''Slides''), (demo_res1, U ''Lecture 1''), (demo_res2, U ''Lecture 2''),
         (demo_folder, U ''Folder''), (demo_forum, U ''Forum''), (demo_pf5, U ''Old''),
         (demo_pf1, U ''Slides again'')]
      else if page = U ''folder page'' then
        [(demo_pf2, U '' Notes ''), (demo_pf2, U ''''), (demo_pf3, U ''''), (demo_pf1, U ''Slides'')]
      else if page = U ''mixed page'' then
        [(demo_mixed, U ''Both''), (demo_folder, U ''Folder'')]
      else if page = U ''index page'' then
        [(demo_slash, U ''Index'')]
      else [])"

definition demo_parsedate :: "ustr \<Rightarrow> (int \<times> int option) option" where
  "demo_parsedate s =
     (if s = U ''Mon, 01 Jan 2024 10:00:00 GMT'' then Some (T0 + 10 * HOUR, Some 0)
      else if s = U ''Mon, 01 Jan 2024 09:30:00 -0000'' then Some (T0 + 9 * HOUR + 1800000000, None)
      else if s = U ''Mon, 01 Jan 2024 13:00:00 +0200'' then Some (T0 + 13 * HOUR, Some (2 * HOUR))
      else if s = U ''Mon, 01 Jan 2024 09:00:00 GMT'' then Some (T0 + 9 * HOUR, Some 0)
      else None)"

definition demo_lib :: pylib where
  "demo_lib =
     \<lparr>re_digit = ascii_digit, str_lower = ascii_lower, urlparse_path = plain_path,
      unquote = (\<lambda>s. s), parsedate_to_datetime = demo_parsedate,
      il_fromutc = (\<lambda>u. Some (u + 2 * HOUR, False)),
      il_utcoffset = (\<lambda>w f. 2 * HOUR), select_a_href = demo_anchors\<rparr>"

definition demo_response :: "ustr \<Rightarrow> ustr option \<Rightarrow> ustr \<Rightarrow> response" where
  "demo_response u lm body =
     \<lparr>status_code = 200, resp_url = u, last_modified_header = lm, body_text = body\<rparr>"

definition demo_head :: "ustr \<Rightarrow> response option" where
  "demo_head u =
     (if u = demo_pf1 \<or> u = demo_res1 @ U ''&redirect=1''
        then Some (demo_response demo_pf1 (Some (U ''Mon, 01 Jan 2024 10:00:00 GMT'')) [])
      else if u = demo_pf2
        then Some (demo_response demo_pf2 (Some (U ''Mon, 01 Jan 2024 09:30:00 -0000'')) [])
      else if u = demo_pf3
        then Some (demo_response demo_pf3 None [])
      else if u = demo_pf4 \<or> u = demo_res2 @ U ''&redirect=1''
        then Some (demo_response demo_pf4 (Some (U ''Mon, 01 Jan 2024 13:00:00 +0200'')) [])
      else if u = demo_pf5
        then Some (demo_response demo_pf5 (Some (U ''Mon, 01 Jan 2024 09:00:00 GMT'')) [])
      else if u = demo_pf6
        then Some (demo_response demo_pf6 (Some (U ''yesterday'')) [])
      else if u = demo_slash
        then Some (demo_response demo_slash (Some (U ''Mon, 01 Jan 2024 10:00:00 GMT'')) [])
      else None)"

definition demo_session :: session where
  "demo_session h q =
     (case q of
        Head u \<Rightarrow> demo_head u
      | Get_stream u \<Rightarrow> None
      | Get u \<Rightarrow>
          if u = demo_course_url then Some (demo_response u None (U ''course page''))
          else if u = demo_folder then Some (demo_response u None (U ''folder page''))
          else if u = demo_course2_url then Some (demo_response u None (U ''index page''))
          else None)"

definition demo_label :: ustr where
  "demo_label = U ''05092843 - '' @ [1488, 1504, 1500, 1497, 1494, 1492, 32, 1492, 1512, 1502, 1493, 1504, 1497, 1514]"

definition demo_name :: ustr where
  "demo_name = [1488, 1504, 1500, 1497, 1494, 1492, 32, 1492, 1512, 1502, 1493, 1504, 1497, 1514]"

definition demo_courses :: "(ustr \<times> ustr) list" where
  "demo_courses = [(demo_label, demo_course_url)]"

definition demo_reference :: datetime where
  "demo_reference = \<lparr>wall = T0 + 11 * HOUR, dt_fold = False, tz = TZ_IL\<rparr>"

subsection \<open>The file name as the specification words it\<close>

text \<open>
  The name derived from a URL's path, percent-decoded: the last segment of the path,
  decoded and trimmed. The specification's rule for a record's file name, read literally:
  the anchor text when it is not blank, this name otherwise.
\<close>

definition path_name :: "pylib \<Rightarrow> ustr \<Rightarrow> ustr" where
  "path_name L u = strip (unquote L (after_last_slash (urlparse_path L u)))"

definition spec_file_name :: "pylib \<Rightarrow> origin \<Rightarrow> ustr" where
  "spec_file_name L og =
     (case origin_path og of
        Scraped act label \<Rightarrow>
          if strip label \<noteq> [] then strip label else path_name L (origin_file_url og)
      | _ \<Rightarrow> path_name L (origin_file_url og))"

definition demo_record_z :: FoundFile where
  "demo_record_z =
     \<lparr>course_name_raw = U ''Seminar XYZ'', course_name_display = U ''Seminar XYZ'',
      file_name = demo_slash,
      last_modified_il = \<lparr>wall = T0 + 12 * HOUR, dt_fold = False, tz = TZ_IL\<rparr>,
      link = demo_slash\<rparr>"

subsection \<open>The display name as the specification words it\<close>


text \<open>The three records the scan of the small portal finds, and the state it ends in.\<close>

definition demo_record_a :: FoundFile where
  "demo_record_a =
     \<lparr>course_name_raw = demo_label, course_name_display = demo_name, file_name = U ''a.pdf'',
      last_modified_il = \<lparr>wall = T0 + 12 * HOUR, dt_fold = False, tz = TZ_IL\<rparr>,
      link = demo_pf1\<rparr>"

definition demo_record_b :: FoundFile where
  "demo_record_b =
     \<lparr>course_name_raw = demo_label, course_name_display = demo_name, file_name = U ''Notes'',
      last_modified_il = \<lparr>wall = T0 + 11 * HOUR + 1800000000, dt_fold = False, tz = TZ_IL\<rparr>,
      link = demo_folder\<rparr>"

definition demo_record_d :: FoundFile where
  "demo_record_d =
     \<lparr>course_name_raw = demo_label, course_name_display = demo_name, file_name = U ''d.pdf'',
      last_modified_il = \<lparr>wall = T0 + 13 * HOUR, dt_fold = False, tz = TZ_IL\<rparr>,
      link = demo_res2\<rparr>"

definition demo_final_state :: scan_state where
  "demo_final_state =
     \<lparr>found = [demo_record_a, demo_record_b, demo_record_d],
      seen_files = {(demo_course_url, demo_pf1), (demo_course_url, demo_pf5),
                    (demo_course_url, demo_pf2), (demo_course_url, demo_pf3),
                    (demo_course_url, demo_pf4)},
      history = [Get demo_course_url, Head demo_pf1, Head demo_pf5, Get demo_folder,
                 Head demo_pf2, Head demo_pf3, Head (demo_res1 @ U ''&redirect=1''),
                 Head (demo_res2 @ U ''&redirect=1''), Head demo_pf4],
      lookups = [(demo_course_url, demo_pf1), (demo_course_url, demo_pf5),
                 (demo_course_url, demo_pf2), (demo_course_url, demo_pf3),
                 (demo_course_url, demo_pf4)],
      origins =
        [\<lparr>origin_course_url = demo_course_url, origin_file_url = demo_pf1,
          origin_path = Direct_link\<rparr>,
         \<lparr>origin_course_url = demo_course_url, origin_file_url = demo_pf2,
          origin_path = Scraped demo_folder (U ''Notes'')\<rparr>,
         \<lparr>origin_course_url = demo_course_url, origin_file_url = demo_pf4,
          origin_path = Resource_view demo_res2\<rparr>]\<rparr>"

subsection \<open>The night summer time ends\<close>

text \<open>
  The instant an aware datetime denotes: its wall-clock time minus its UTC offset.
\<close>

definition utc_instant :: "pylib \<Rightarrow> datetime \<Rightarrow> int" where
  "utc_instant L d = wall d - utcoffset L d"

text \<open>
  In Israel summer time ended on 27 October 2024 at 02:00, when clocks went back to 01:00:
  the UTC hour from 22:00 to 23:00 of 26 October is shown as 01:00 to 02:00 with offset
  +3 and \<open>fold = 0\<close>, the next UTC hour as 01:00 to 02:00 again, with offset +2 and
  \<open>fold = 1\<close>. \<open>fold_lib\<close> is \<open>demo_lib\<close> with the zone as it is in the days around that
  night. \<open>T1\<close> is midnight of 26 October 2024.

  One course page links two files: \<open>x.pdf\<close>, modified at 22:50 UTC (01:50 local time, before
  the clocks went back), and \<open>y.pdf\<close>, modified at 23:10 UTC (01:10 local time, after).
\<close>

definition T1 :: int where
  "T1 = 63865497600000000"

definition MINUTE :: int where
  "MINUTE = 60000000"

definition fold_fromutc :: "int \<Rightarrow> (int \<times> bool) option" where
  "fold_fromutc u =
     (if u < T1 + 23 * HOUR then Some (u + 3 * HOUR, False)
      else if u < T1 + 24 * HOUR then Some (u + 2 * HOUR, True)
      else Some (u + 2 * HOUR, False))"

definition fold_utcoffset :: "int \<Rightarrow> bool \<Rightarrow> int" where
  "fold_utcoffset w f =
     (if w < T1 + 25 * HOUR then 3 * HOUR
      else if w < T1 + 26 * HOUR then (if f then 2 * HOUR else 3 * HOUR)
      else 2 * HOUR)"

definition fold_pf_x :: ustr where
  "fold_pf_x = U ''https://moodle.tau.ac.il/pluginfile.php/10/x.pdf''"

definition fold_pf_y :: ustr where
  "fold_pf_y = U ''https://moodle.tau.ac.il/pluginfile.php/11/y.pdf''"

definition fold_parsedate :: "ustr \<Rightarrow> (int \<times> int option) option" where
  "fold_parsedate s =
     (if s = U ''Sat, 26 Oct 2024 22:50:00 GMT'' then Some (T1 + 22 * HOUR + 50 * MINUTE, Some 0)
      else if s = U ''Sat, 26 Oct 2024 23:10:00 GMT'' then Some (T1 + 23 * HOUR + 10 * MINUTE, Some 0)
      else None)"

definition fold_lib :: pylib where
  "fold_lib =
     \<lparr>re_digit = ascii_digit, str_lower = ascii_lower, urlparse_path = plain_path,
      unquote = (\<lambda>s. s), parsedate_to_datetime = fold_parsedate,
      il_fromutc = fold_fromutc, il_utcoffset = fold_utcoffset,
      select_a_href =
        (\<lambda>page. if page = U ''night page''
                then [(fold_pf_x, U ''X''), (fold_pf_y, U ''Y'')] else [])\<rparr>"

definition fold_session :: session where
  "fold_session h q =
     (case q of
        Head u \<Rightarrow>
          if u = fold_pf_x
            then Some (demo_response fold_pf_x (Some (U ''Sat, 26 Oct 2024 22:50:00 GMT'')) [])
          else if u = fold_pf_y
            then Some (demo_response fold_pf_y (Some (U ''Sat, 26 Oct 2024 23:10:00 GMT'')) [])
          else None
      | Get_stream u \<Rightarrow> None
      | Get u \<Rightarrow>
          if u = demo_course_url then Some (demo_response u None (U ''night page'')) else None)"

definition fold_courses :: "(ustr \<times> ustr) list" where
  "fold_courses = [(U ''Seminar XYZ'', demo_course_url)]"

text \<open>Two watermarks: 01:30 local time after the clocks went back (23:30 UTC), and
  23:00 local time of the evening before (20:00 UTC).\<close>

definition fold_watermark :: datetime where
  "fold_watermark = \<lparr>wall = T1 + 25 * HOUR + 30 * MINUTE, dt_fold = True, tz = TZ_IL\<rparr>"

definition fold_evening :: datetime where
  "fold_evening = \<lparr>wall = T1 + 23 * HOUR, dt_fold = False, tz = TZ_IL\<rparr>"

definition fold_record_x :: FoundFile where
  "fold_record_x =
     \<lparr>course_name_raw = U ''Seminar XYZ'', course_name_display = U ''Seminar XYZ'',
      file_name = U ''x.pdf'',
      last_modified_il = \<lparr>wall = T1 + 25 * HOUR + 50 * MINUTE, dt_fold = False, tz = TZ_IL\<rparr>,
      link = fold_pf_x\<rparr>"

definition fold_record_y :: FoundFile where
  "fold_record_y =
     \<lparr>course_name_raw = U ''Seminar XYZ'', course_name_display = U ''Seminar XYZ'',
      file_name = U ''y.pdf'',
      last_modified_il = \<lparr>wall = T1 + 25 * HOUR + 10 * MINUTE, dt_fold = True, tz = TZ_IL\<rparr>,
      link = fold_pf_y\<rparr>"

section \<open>Basic facts\<close>

lemma fold_preserves:
  assumes "P s" and "\<And>x s. x \<in> set xs \<Longrightarrow> P s \<Longrightarrow> P (f x s)"
  shows "P (fold f xs s)"
  using assms by (induction xs arbitrary: s) auto

section \<open>Course display name\<close>



section \<open>Link extractor\<close>

lemma extract_activity_loop_sets:
  "extract_activity_loop (P, A) as =
     (P \<union> {h \<in> fst ` set as. h \<noteq> [] \<and> sublist PLUGINFILE_URL h},
      A \<union> {h \<in> fst ` set as. h \<noteq> [] \<and> is_activity_href h})"
proof (induction as arbitrary: P A)
  case Nil
  show ?case by simp
next
  case (Cons a as)
  obtain href lbl where a: "a = (href, lbl)" by (cases a)
  show ?case
    unfolding a by (auto simp: Cons.IH is_activity_href_def)
qed

lemma PLUGINFILE_URL_nonempty: "sublist PLUGINFILE_URL h \<Longrightarrow> h \<noteq> []"
  by (auto simp: PLUGINFILE_URL_def U_def)

lemma activity_href_nonempty: "is_activity_href h \<Longrightarrow> h \<noteq> []"
  by (auto simp: is_activity_href_def RESOURCE_VIEW_URL_def FOLDER_VIEW_URL_def
      ASSIGN_VIEW_URL_def U_def)

lemma extract_activity_links_sets:
  "extract_activity_links_from_course_html L html =
     ({h \<in> fst ` set (select_a_href L html). sublist PLUGINFILE_URL h},
      {h \<in> fst ` set (select_a_href L html). is_activity_href h})"
  using PLUGINFILE_URL_nonempty activity_href_nonempty
  by (auto simp: extract_activity_links_from_course_html_def extract_activity_loop_sets)

text \<open>
  Claim C7. For every page, the link extractor classifies the \<open>href\<close> of each anchor into
  exactly one of three classes: the direct-file set when it contains the file-serving
  pattern; otherwise the activity set when it contains one of the three activity patterns
  (resource view, folder view, assignment view); and neither set otherwise. The two sets
  are disjoint and hold nothing but anchor targets of the page.
\<close>
theorem extract_links_classification:
  "fst (extract_activity_links_from_course_html L html) =
     {h \<in> fst ` set (select_a_href L html). sublist PLUGINFILE_URL h}
   \<and> snd (extract_activity_links_from_course_html L html) =
     {h \<in> fst ` set (select_a_href L html).
        \<not> sublist PLUGINFILE_URL h \<and>
        (sublist RESOURCE_VIEW_URL h \<or> sublist FOLDER_VIEW_URL h \<or> sublist ASSIGN_VIEW_URL h)}
   \<and> fst (extract_activity_links_from_course_html L html)
       \<inter> snd (extract_activity_links_from_course_html L html) = {}"
  by (auto simp: extract_activity_links_sets is_activity_href_def)

text \<open>The course page of the small portal: two files, three activities, and a forum link
  that lands in neither set.\<close>

theorem extract_links_classification_witness:
  "fst (extract_activity_links_from_course_html demo_lib (U ''course page'')) = {demo_pf1, demo_pf5}
   \<and> snd (extract_activity_links_from_course_html demo_lib (U ''course page''))
       = {demo_res1, demo_res2, demo_folder}
   \<and> demo_forum \<in> fst ` set (select_a_href demo_lib (U ''course page''))"
proof -
  have "extract_activity_links_from_course_html demo_lib (U ''course page'')
          = ({demo_pf1, demo_pf5}, {demo_res1, demo_res2, demo_folder})
        \<and> demo_forum \<in> fst ` set (select_a_href demo_lib (U ''course page''))"
    by code_simp
  then show ?thesis
    using extract_links_classification[of demo_lib "U ''course page''"] by simp
qed

text \<open>
  Claim C10. An \<open>href\<close> that contains both the file-serving pattern and one of the three
  activity patterns is classified as a direct file link only: it is in the first set and
  not in the activity set.
\<close>
theorem pluginfile_takes_precedence:
  assumes "h \<in> fst ` set (select_a_href L html)"
    and "sublist PLUGINFILE_URL h"
    and "sublist RESOURCE_VIEW_URL h \<or> sublist FOLDER_VIEW_URL h \<or> sublist ASSIGN_VIEW_URL h"
  shows "h \<in> fst (extract_activity_links_from_course_html L html)
         \<and> h \<notin> snd (extract_activity_links_from_course_html L html)"
  using assms by (simp add: extract_activity_links_sets is_activity_href_def)

text \<open>A link whose file path itself contains the folder-view pattern.\<close>

theorem pluginfile_takes_precedence_witness:
  "demo_mixed \<in> fst ` set (select_a_href demo_lib (U ''mixed page''))
   \<and> sublist PLUGINFILE_URL demo_mixed \<and> sublist FOLDER_VIEW_URL demo_mixed
   \<and> demo_mixed \<in> fst (extract_activity_links_from_course_html demo_lib (U ''mixed page''))
   \<and> demo_mixed \<notin> snd (extract_activity_links_from_course_html demo_lib (U ''mixed page''))"
proof -
  have a: "demo_mixed \<in> fst ` set (select_a_href demo_lib (U ''mixed page''))" by code_simp
  have b: "sublist PLUGINFILE_URL demo_mixed" by code_simp
  have c: "sublist FOLDER_VIEW_URL demo_mixed" by code_simp
  from pluginfile_takes_precedence[OF a b] a b c show ?thesis by simp
qed

section \<open>Activity resolver\<close>

lemma PLUGINFILE_nonempty: "sublist PLUGINFILE h \<Longrightarrow> h \<noteq> []"
  by (auto simp: PLUGINFILE_def U_def)

lemma http_head_follow_history:
  "snd (http_head_follow S u h) = h @ [Head u]
   \<or> snd (http_head_follow S u h) = h @ [Head u, Get_stream u]"
  by (auto simp: http_head_follow_def send_def split: option.split)

lemma http_head_follow_exception:
  "S h (Head u) = None \<Longrightarrow> http_head_follow S u h = (None, h @ [Head u])"
  by (simp add: http_head_follow_def send_def)

lemma probe_url_cases:
  "probe_url v =
     (if sublist REDIRECT_EQ v then v
      else if sublist (U ''?'') v then v @ U ''&redirect=1''
      else v @ U ''?redirect=1'')"
  by (simp add: probe_url_def U_def)

lemma probe_url_has_parameter: "sublist REDIRECT_EQ (probe_url v)"
proof -
  have "sublist REDIRECT_EQ (U ''&redirect=1'')" "sublist REDIRECT_EQ (U ''?redirect=1'')"
    unfolding REDIRECT_EQ_def by code_simp+
  then have "sublist REDIRECT_EQ (v @ U ''&redirect=1'')" "sublist REDIRECT_EQ (v @ U ''?redirect=1'')"
    by (auto simp: sublist_append)
  then show ?thesis by (simp add: probe_url_cases)
qed

text \<open>
  Claim C4. For every activity URL handed to the resolver: the probe URL is the URL itself
  when the text \<open>redirect=\<close> already occurs in it, and otherwise the URL with
  \<open>redirect=1\<close> appended, joined by \<open>&\<close> when the URL contains a \<open>?\<close> and by \<open>?\<close> when it
  does not; so the probe always carries the parameter. If the metadata request on the
  probe URL (a HEAD, with its streamed GET as fallback) ends on a URL that contains
  \<open>pluginfile.php\<close>, the resolver returns the one-element list of that final URL, and
  the only requests it has added to the session history are that HEAD and possibly its
  streamed GET: no page is fetched, so nothing is scraped.
\<close>
theorem resolve_fast_path:
  assumes "http_head_follow S (probe_url v) h = (Some r, h')"
    and "sublist PLUGINFILE (resp_url r)"
  shows "probe_url v =
           (if sublist REDIRECT_EQ v then v
            else if sublist (U ''?'') v then v @ U ''&redirect=1''
            else v @ U ''?redirect=1'')
         \<and> sublist REDIRECT_EQ (probe_url v)
         \<and> resolve_resource_view_to_file L S v h = ([resp_url r], h')
         \<and> (h' = h @ [Head (probe_url v)]
              \<or> h' = h @ [Head (probe_url v), Get_stream (probe_url v)])"
proof -
  have "resp_url r \<noteq> []" using assms(2) by (rule PLUGINFILE_nonempty)
  then have "resolve_resource_view_to_file L S v h = ([resp_url r], h')"
    using assms by (simp add: resolve_resource_view_to_file_def)
  moreover have "h' = h @ [Head (probe_url v)]
      \<or> h' = h @ [Head (probe_url v), Get_stream (probe_url v)]"
    using http_head_follow_history[of S "probe_url v" h] assms(1) by simp
  ultimately show ?thesis
    using probe_url_cases[of v] probe_url_has_parameter[of v] by simp
qed

text \<open>The second resource view of the small portal redirects to a file.\<close>

theorem resolve_fast_path_witness:
  "http_head_follow demo_session (probe_url demo_res2) []
     = (Some (demo_response demo_pf4 (Some (U ''Mon, 01 Jan 2024 13:00:00 +0200'')) []),
        [Head (demo_res2 @ U ''&redirect=1'')])
   \<and> sublist PLUGINFILE demo_pf4
   \<and> probe_url demo_res2 = demo_res2 @ U ''&redirect=1''
   \<and> resolve_resource_view_to_file demo_lib demo_session demo_res2 []
       = ([demo_pf4], [Head (demo_res2 @ U ''&redirect=1'')])"
proof -
  let ?r = "demo_response demo_pf4 (Some (U ''Mon, 01 Jan 2024 13:00:00 +0200'')) []"
  have a: "http_head_follow demo_session (probe_url demo_res2) []
             = (Some ?r, [Head (demo_res2 @ U ''&redirect=1'')])"
    by code_simp
  have b: "sublist PLUGINFILE (resp_url ?r)" by code_simp
  have c: "resp_url ?r = demo_pf4" by (simp add: demo_response_def)
  have d: "sublist (U ''?'') demo_res2" "\<not> sublist REDIRECT_EQ demo_res2" by code_simp+
  note t = resolve_fast_path[OF a b, of demo_lib]
  from t have p: "probe_url demo_res2 = demo_res2 @ U ''&redirect=1''"
    by (simp only: d if_True if_False)
  from t have r: "resolve_resource_view_to_file demo_lib demo_session demo_res2 []
       = ([resp_url ?r], [Head (demo_res2 @ U ''&redirect=1'')])"
    by blast
  show ?thesis
    using a b p r unfolding c by blast
qed

subsection \<open>First occurrences\<close>













section \<open>Metadata resolver\<close>

text \<open>
  Claim C6. The metadata lookup always returns: its result is an optional timestamp.
  It is absent when the request raises, when the response has no \<open>Last-Modified\<close> header
  and when the header does not parse. Every timestamp it returns carries the Israel
  timezone and is the conversion of the instant the header states, where a header without
  an explicit offset is read as UTC (offset 0).
\<close>
theorem get_modified_time_absent_or_israel:
  "(S h (Head u) = None \<longrightarrow> fst (get_last_modified_for_file L S u h) = None)
   \<and> (fst (http_head_follow S u h) = None \<longrightarrow> fst (get_last_modified_for_file L S u h) = None)
   \<and> (\<forall>r. fst (http_head_follow S u h) = Some r \<and> last_modified_header r = None
          \<longrightarrow> fst (get_last_modified_for_file L S u h) = None)
   \<and> (\<forall>r lm. fst (http_head_follow S u h) = Some r \<and> last_modified_header r = Some lm
             \<and> parsedate_to_datetime L lm = None
          \<longrightarrow> fst (get_last_modified_for_file L S u h) = None)
   \<and> (\<forall>d. fst (get_last_modified_for_file L S u h) = Some d \<longrightarrow>
          tz d = TZ_IL
          \<and> (\<exists>r lm w off.
                fst (http_head_follow S u h) = Some r \<and> last_modified_header r = Some lm
                \<and> parsedate_to_datetime L lm = Some (w, off)
                \<and> il_fromutc L (w - (case off of None \<Rightarrow> 0 | Some x \<Rightarrow> x))
                    = Some (wall d, dt_fold d)))"
proof (intro conjI allI impI)
  assume "S h (Head u) = None"
  then show "fst (get_last_modified_for_file L S u h) = None"
    by (simp add: get_last_modified_for_file_def http_head_follow_exception)
next
  assume "fst (http_head_follow S u h) = None"
  then show "fst (get_last_modified_for_file L S u h) = None"
    by (cases "http_head_follow S u h") (simp add: get_last_modified_for_file_def)
next
  fix r
  assume "fst (http_head_follow S u h) = Some r \<and> last_modified_header r = None"
  then show "fst (get_last_modified_for_file L S u h) = None"
    by (cases "http_head_follow S u h")
       (simp add: get_last_modified_for_file_def parse_http_last_modified_def)
next
  fix r lm
  assume "fst (http_head_follow S u h) = Some r \<and> last_modified_header r = Some lm
             \<and> parsedate_to_datetime L lm = None"
  then show "fst (get_last_modified_for_file L S u h) = None"
    by (cases "http_head_follow S u h")
       (simp add: get_last_modified_for_file_def parse_http_last_modified_def)
next
  fix d
  assume d: "fst (get_last_modified_for_file L S u h) = Some d"
  obtain ro h1 where f: "http_head_follow S u h = (ro, h1)" by (cases "http_head_follow S u h")
  from d f obtain r where r: "ro = Some r"
    and p: "parse_http_last_modified L (last_modified_header r) = Some d"
    by (cases ro) (auto simp: get_last_modified_for_file_def split: if_splits)
  from p obtain lm w off where lm: "last_modified_header r = Some lm"
    and pd: "parsedate_to_datetime L lm = Some (w, off)"
    and az: "astimezone_il L w (case off of None \<Rightarrow> 0 | Some x \<Rightarrow> x) = Some d"
    by (auto simp: parse_http_last_modified_def split: option.splits if_splits)
  from az obtain w' f' where fu: "il_fromutc L (w - (case off of None \<Rightarrow> 0 | Some x \<Rightarrow> x)) = Some (w', f')"
    and dd: "d = \<lparr>wall = w', dt_fold = f', tz = TZ_IL\<rparr>"
    by (auto simp: astimezone_il_def split: option.splits)
  show "tz d = TZ_IL" by (simp add: dd)
  show "\<exists>r lm w off.
                fst (http_head_follow S u h) = Some r \<and> last_modified_header r = Some lm
                \<and> parsedate_to_datetime L lm = Some (w, off)
                \<and> il_fromutc L (w - (case off of None \<Rightarrow> 0 | Some x \<Rightarrow> x))
                    = Some (wall d, dt_fold d)"
    using f r lm pd fu dd by auto
qed


text \<open>
  A request that raises, a response without the header, a header that does not parse, and
  a header without an offset, 09:30 read as UTC and shown as 11:30 Israel time.
\<close>

theorem get_modified_time_absent_or_israel_witness:
  "demo_session [] (Head demo_forum) = None
   \<and> fst (get_last_modified_for_file demo_lib demo_session demo_forum []) = None
   \<and> fst (http_head_follow demo_session demo_pf3 []) = Some (demo_response demo_pf3 None [])
   \<and> fst (get_last_modified_for_file demo_lib demo_session demo_pf3 []) = None
   \<and> fst (http_head_follow demo_session demo_pf6 [])
       = Some (demo_response demo_pf6 (Some (U ''yesterday'')) [])
   \<and> parsedate_to_datetime demo_lib (U ''yesterday'') = None
   \<and> fst (get_last_modified_for_file demo_lib demo_session demo_pf6 []) = None
   \<and> fst (get_last_modified_for_file demo_lib demo_session demo_pf2 [])
       = Some \<lparr>wall = T0 + 11 * HOUR + 1800000000, dt_fold = False, tz = TZ_IL\<rparr>
   \<and> tz \<lparr>wall = T0 + 11 * HOUR + 1800000000, dt_fold = False, tz = TZ_IL\<rparr> = TZ_IL"
proof -
  have a: "demo_session [] (Head demo_forum) = None" by code_simp
  have b: "fst (http_head_follow demo_session demo_pf3 []) = Some (demo_response demo_pf3 None [])"
    "last_modified_header (demo_response demo_pf3 None []) = None"
    by code_simp+
  have c: "fst (http_head_follow demo_session demo_pf6 [])
             = Some (demo_response demo_pf6 (Some (U ''yesterday'')) [])"
    "last_modified_header (demo_response demo_pf6 (Some (U ''yesterday'')) []) = Some (U ''yesterday'')"
    "parsedate_to_datetime demo_lib (U ''yesterday'') = None"
    by code_simp+
  have d: "fst (get_last_modified_for_file demo_lib demo_session demo_pf2 [])
       = Some \<lparr>wall = T0 + 11 * HOUR + 1800000000, dt_fold = False, tz = TZ_IL\<rparr>"
    by code_simp
  from get_modified_time_absent_or_israel[of demo_session "[]" demo_forum demo_lib] a
  have r1: "fst (get_last_modified_for_file demo_lib demo_session demo_forum []) = None"
    by blast
  from get_modified_time_absent_or_israel[of demo_session "[]" demo_pf3 demo_lib] b
  have r2: "fst (get_last_modified_for_file demo_lib demo_session demo_pf3 []) = None"
    by blast
  from get_modified_time_absent_or_israel[of demo_session "[]" demo_pf6 demo_lib] c
  have r3: "fst (get_last_modified_for_file demo_lib demo_session demo_pf6 []) = None"
    by blast
  from get_modified_time_absent_or_israel[of demo_session "[]" demo_pf2 demo_lib] d
  have r4: "tz \<lparr>wall = T0 + 11 * HOUR + 1800000000, dt_fold = False, tz = TZ_IL\<rparr> = TZ_IL"
    by blast
  from a b(1) c(1,3) d r1 r2 r3 r4 show ?thesis by blast
qed

section \<open>Lifting a property of one visit to the whole scan\<close>

lemma extract_activity_members:
  assumes "extract_activity_links_from_course_html L html = (pfs, acts)"
  shows "finite pfs" "finite acts" "\<And>a. a \<in> acts \<Longrightarrow> is_activity_href a"
  using assms by (auto simp: extract_activity_links_sets)

lemma visit_activity_preserves:
  assumes P: "P st"
    and act: "is_activity_href act"
    and hist: "\<And>st h. P st \<Longrightarrow> P (st\<lparr>history := h\<rparr>)"
    and res: "\<And>pf st. P st \<Longrightarrow> P (visit_resolved L S ref raw disp cu act pf st)"
    and scr: "\<And>item st. P st \<Longrightarrow> P (visit_scraped L S ref raw disp cu act item st)"
  shows "P (visit_activity L S ref raw disp cu act st)"
proof (cases "sublist RESOURCE_VIEW act")
  case True
  obtain us h1 where r: "resolve_resource_view_to_file L S act (history st) = (us, h1)"
    by (cases "resolve_resource_view_to_file L S act (history st)")
  have "P (fold (visit_resolved L S ref raw disp cu act) us (st\<lparr>history := h1\<rparr>))"
    by (rule fold_preserves[where P = P]) (simp_all add: hist P res)
  then show ?thesis by (simp add: visit_activity_def True r)
next
  case False
  obtain page h1 where g: "http_get_html S act (history st) = (page, h1)"
    by (cases "http_get_html S act (history st)")
  have base: "P (st\<lparr>history := h1\<rparr>)" by (simp add: hist P)
  have "P (fold (visit_scraped L S ref raw disp cu act) xs (st\<lparr>history := h1\<rparr>))" for xs
    by (rule fold_preserves[where P = P]) (simp_all add: base scr)
  then show ?thesis
    using base by (simp add: visit_activity_def False g split: option.split)
qed

lemma scan_course_preserves:
  assumes P: "P st"
    and hist: "\<And>st h. P st \<Longrightarrow> P (st\<lparr>history := h\<rparr>)"
    and dir: "\<And>pf st. P st \<Longrightarrow>
       P (visit_direct L S ref (fst c) (course_display_name L (fst c)) (snd c) pf st)"
    and res: "\<And>act pf st. is_activity_href act \<Longrightarrow> P st \<Longrightarrow>
       P (visit_resolved L S ref (fst c) (course_display_name L (fst c)) (snd c) act pf st)"
    and scr: "\<And>act item st. is_activity_href act \<Longrightarrow> P st \<Longrightarrow>
       P (visit_scraped L S ref (fst c) (course_display_name L (fst c)) (snd c) act item st)"
  shows "P (scan_course L S ref c st)"
proof -
  obtain raw cu where c: "c = (raw, cu)" by (cases c)
  obtain page h1 where g: "http_get_html S cu (history st) = (page, h1)"
    by (cases "http_get_html S cu (history st)")
  have base: "P (st\<lparr>history := h1\<rparr>)" by (simp add: hist P)
  show ?thesis
  proof (cases "page = None \<or> page = Some []")
    case True
    then show ?thesis using base by (auto simp: scan_course_def c g Let_def)
  next
    case False
    then obtain html where page: "page = Some html" "html \<noteq> []" by auto
    obtain pfs acts where e: "extract_activity_links_from_course_html L html = (pfs, acts)"
      by (cases "extract_activity_links_from_course_html L html")
    note m = extract_activity_members[OF e]
    let ?disp = "course_display_name L raw"
    have d: "P (fold (visit_direct L S ref raw ?disp cu) (sorted_list_of_set pfs)
                 (st\<lparr>history := h1\<rparr>))"
      by (rule fold_preserves[where P = P, OF base]) (use dir in \<open>simp add: c\<close>)
    have "P (fold (visit_activity L S ref raw ?disp cu) (sorted_list_of_set acts)
               (fold (visit_direct L S ref raw ?disp cu) (sorted_list_of_set pfs)
                 (st\<lparr>history := h1\<rparr>)))"
    proof (rule fold_preserves[where P = P, OF d])
      fix act s
      assume a: "act \<in> set (sorted_list_of_set acts)" and s: "P s"
      from a m have ia: "is_activity_href act" by simp
      show "P (visit_activity L S ref raw ?disp cu act s)"
        by (rule visit_activity_preserves[where P = P, OF s ia hist])
           (use res[OF ia] scr[OF ia] in \<open>simp_all add: c\<close>)
    qed
    then show ?thesis by (simp add: scan_course_def c g page e Let_def)
  qed
qed

lemma scan_courses_preserves:
  assumes init: "P initial_state"
    and hist: "\<And>st h. P st \<Longrightarrow> P (st\<lparr>history := h\<rparr>)"
    and dir: "\<And>raw cu pf st. P st \<Longrightarrow>
       P (visit_direct L S ref raw (course_display_name L raw) cu pf st)"
    and res: "\<And>raw cu act pf st. is_activity_href act \<Longrightarrow> P st \<Longrightarrow>
       P (visit_resolved L S ref raw (course_display_name L raw) cu act pf st)"
    and scr: "\<And>raw cu act item st. is_activity_href act \<Longrightarrow> P st \<Longrightarrow>
       P (visit_scraped L S ref raw (course_display_name L raw) cu act item st)"
  shows "P (scan_courses L S courses ref)"
  unfolding scan_courses_def
proof (rule fold_preserves[where P = P])
  show "P initial_state" by (rule init)
next
  fix c s
  assume "P s"
  then show "P (scan_course L S ref c s)"
    by (rule scan_course_preserves) (simp_all add: hist dir res scr)
qed

lemma scan_courses_visit_file:
  assumes init: "P initial_state"
    and hist: "\<And>st h. P st \<Longrightarrow> P (st\<lparr>history := h\<rparr>)"
    and vf: "\<And>raw disp cu pf how fname lnk st. P st \<Longrightarrow>
       P (visit_file L S ref raw disp cu pf how fname lnk st)"
  shows "P (scan_courses L S courses ref)"
  by (rule scan_courses_preserves[where P = P, OF init hist])
     (auto simp: visit_direct_def visit_resolved_def visit_scraped_def vf split: prod.split)

lemma visit_file_cases:
  obtains
    (seen) "(cu, pf) \<in> seen_files st"
      "visit_file L S ref raw disp cu pf how fname lnk st = st"
  | (skipped) lm h1 where "(cu, pf) \<notin> seen_files st"
      "get_last_modified_for_file L S pf (history st) = (lm, h1)"
      "\<forall>t. lm = Some t \<longrightarrow> \<not> dt_gt L t ref"
      "visit_file L S ref raw disp cu pf how fname lnk st
         = st\<lparr>seen_files := insert (cu, pf) (seen_files st), history := h1,
              lookups := lookups st @ [(cu, pf)]\<rparr>"
  | (added) t h1 where "(cu, pf) \<notin> seen_files st"
      "get_last_modified_for_file L S pf (history st) = (Some t, h1)"
      "dt_gt L t ref"
      "visit_file L S ref raw disp cu pf how fname lnk st
         = st\<lparr>seen_files := insert (cu, pf) (seen_files st), history := h1,
              lookups := lookups st @ [(cu, pf)],
              found := found st @
                [\<lparr>course_name_raw = raw, course_name_display = disp, file_name = fname,
                  last_modified_il = t, link = lnk\<rparr>],
              origins := origins st @
                [\<lparr>origin_course_url = cu, origin_file_url = pf, origin_path = how\<rparr>]\<rparr>"
proof (cases "(cu, pf) \<in> seen_files st")
  case True
  then show ?thesis using seen by (simp add: visit_file_def Let_def)
next
  case False
  obtain lm h1 where g: "get_last_modified_for_file L S pf (history st) = (lm, h1)"
    by (cases "get_last_modified_for_file L S pf (history st)")
  show ?thesis
  proof (cases "\<exists>t. lm = Some t \<and> dt_gt L t ref")
    case True
    then obtain t where t: "lm = Some t" "dt_gt L t ref" by blast
    show ?thesis
      by (rule added[of t h1]) (use False g t in \<open>simp_all add: visit_file_def Let_def\<close>)
  next
    case n: False
    show ?thesis
      by (rule skipped[of lm h1]) (use False g n in \<open>auto simp: visit_file_def Let_def split: option.split\<close>)
  qed
qed


section \<open>Properties of the scan\<close>

subsection \<open>Watermark\<close>

lemma found_after_watermark:
  "\<forall>r \<in> set (found (scan_courses L S courses ref)). dt_gt L (last_modified_il r) ref"
proof (rule scan_courses_visit_file[where P = "\<lambda>st. \<forall>r \<in> set (found st). dt_gt L (last_modified_il r) ref"])
  show "\<forall>r \<in> set (found initial_state). dt_gt L (last_modified_il r) ref"
    by (simp add: initial_state_def)
next
  fix st :: scan_state and h
  assume "\<forall>r \<in> set (found st). dt_gt L (last_modified_il r) ref"
  then show "\<forall>r \<in> set (found (st\<lparr>history := h\<rparr>)). dt_gt L (last_modified_il r) ref" by simp
next
  fix raw disp cu pf how fname lnk and st :: scan_state
  assume inv: "\<forall>r \<in> set (found st). dt_gt L (last_modified_il r) ref"
  show "\<forall>r \<in> set (found (visit_file L S ref raw disp cu pf how fname lnk st)).
          dt_gt L (last_modified_il r) ref"
    by (cases rule: visit_file_cases[of cu pf st L S ref raw disp how fname lnk])
       (use inv in auto)
qed

lemma found_tz:
  "\<forall>r \<in> set (found (scan_courses L S courses ref)). tz (last_modified_il r) = TZ_IL"
proof (rule scan_courses_visit_file[where P = "\<lambda>st. \<forall>r \<in> set (found st). tz (last_modified_il r) = TZ_IL"])
  show "\<forall>r \<in> set (found initial_state). tz (last_modified_il r) = TZ_IL"
    by (simp add: initial_state_def)
next
  fix st :: scan_state and h
  assume "\<forall>r \<in> set (found st). tz (last_modified_il r) = TZ_IL"
  then show "\<forall>r \<in> set (found (st\<lparr>history := h\<rparr>)). tz (last_modified_il r) = TZ_IL" by simp
next
  fix raw disp cu pf how fname lnk and st :: scan_state
  assume inv: "\<forall>r \<in> set (found st). tz (last_modified_il r) = TZ_IL"
  show "\<forall>r \<in> set (found (visit_file L S ref raw disp cu pf how fname lnk st)).
          tz (last_modified_il r) = TZ_IL"
  proof (cases rule: visit_file_cases[of cu pf st L S ref raw disp how fname lnk])
    case (added t h1)
    from added(2) have "fst (get_last_modified_for_file L S pf (history st)) = Some t" by simp
    then have "tz t = TZ_IL"
      by (auto simp: get_last_modified_for_file_def parse_http_last_modified_def
          astimezone_il_def split: prod.splits option.splits if_splits)
    then show ?thesis using inv added(4) by auto
  qed (use inv in auto)
qed

subsection \<open>The scan of the small portal\<close>

lemma demo_scan: "scan_courses demo_lib demo_session demo_courses demo_reference = demo_final_state"
  by code_simp

lemma demo_scan_all:
  "scan_all demo_lib demo_session demo_courses demo_reference
     = [demo_record_b, demo_record_a, demo_record_d]"
  by code_simp

subsection \<open>Claims about the scan\<close>

text \<open>
  Claim C1. The specification promises that every returned record has a modification
  timestamp strictly greater than the watermark and that a file at or below the watermark
  never produces a record. What the source guarantees is lemma \<open>found_after_watermark\<close>:
  every record passed the test \<open>lm > reference_dt\<close>. Both operands carry the one \<open>tzinfo\<close>
  object \<open>TZ_IL\<close>, so Python compares their wall-clock fields and ignores \<open>fold\<close>. In the
  night summer time ends this is not the order of the instants: with the watermark at
  01:30 after the clocks went back (23:30 UTC), the file modified at 22:50 UTC, shown as
  01:50, is reported, although it was modified forty minutes before the watermark.
\<close>

theorem watermark_fold_hour:
  "scan_all fold_lib fold_session fold_courses fold_watermark = [fold_record_x]
   \<and> dt_gt fold_lib (last_modified_il fold_record_x) fold_watermark
   \<and> utc_instant fold_lib (last_modified_il fold_record_x) = T1 + 22 * HOUR + 50 * MINUTE
   \<and> utc_instant fold_lib fold_watermark = T1 + 23 * HOUR + 30 * MINUTE
   \<and> utc_instant fold_lib (last_modified_il fold_record_x) < utc_instant fold_lib fold_watermark"
  by code_simp

subsection \<open>Deduplication\<close>

lemma dedup_invariant:
  "distinct (lookups (scan_courses L S courses ref))
   \<and> set (lookups (scan_courses L S courses ref)) \<subseteq> seen_files (scan_courses L S courses ref)
   \<and> distinct (map origin_key (origins (scan_courses L S courses ref)))
   \<and> set (map origin_key (origins (scan_courses L S courses ref)))
        \<subseteq> set (lookups (scan_courses L S courses ref))
   \<and> length (origins (scan_courses L S courses ref)) = length (found (scan_courses L S courses ref))"
  (is "?I (scan_courses L S courses ref)")
proof (rule scan_courses_visit_file[where P = ?I])
  show "?I initial_state" by (simp add: initial_state_def)
next
  fix st :: scan_state and h
  assume "?I st"
  then show "?I (st\<lparr>history := h\<rparr>)" by simp
next
  fix raw disp cu pf how fname lnk and st :: scan_state
  assume inv: "?I st"
  show "?I (visit_file L S ref raw disp cu pf how fname lnk st)"
  proof (cases rule: visit_file_cases[of cu pf st L S ref raw disp how fname lnk])
    case seen
    then show ?thesis using inv by simp
  next
    case (skipped lm h1)
    then show ?thesis using inv by auto
  next
    case (added t h1)
    have "(cu, pf) \<notin> set (lookups st)" "(cu, pf) \<notin> set (map origin_key (origins st))"
      using inv added(1) by auto
    then show ?thesis using inv added(4) by (auto simp: origin_key_def)
  qed
qed

text \<open>
  Claim C3. Within one scan, the metadata lookup \<open>_get_last_modified_for_file\<close> is called
  at most once for every pair of course URL and resolved file URL: the list of the pairs
  it was called for has no repetition. The returned records are the elements of \<open>found\<close>
  in sorted order, each element of \<open>found\<close> has its origin at the same position of
  \<open>origins\<close>, and no two origins share course URL and file URL, whichever way the file
  was discovered; every origin is one of the looked-up pairs.
\<close>
theorem scan_dedup:
  "distinct (lookups (scan_courses L S courses reference_dt))
   \<and> distinct (map origin_key (origins (scan_courses L S courses reference_dt)))
   \<and> set (map origin_key (origins (scan_courses L S courses reference_dt)))
        \<subseteq> set (lookups (scan_courses L S courses reference_dt))
   \<and> length (origins (scan_courses L S courses reference_dt))
        = length (found (scan_courses L S courses reference_dt))
   \<and> mset (scan_all L S courses reference_dt) = mset (found (scan_courses L S courses reference_dt))"
  using dedup_invariant[of L S courses reference_dt] by (simp add: scan_all_def)

text \<open>
  In the small portal the first file is linked directly, is the target of the first
  resource view and is listed in the folder: it is looked up once and reported once.
\<close>

theorem scan_dedup_witness:
  "lookups (scan_courses demo_lib demo_session demo_courses demo_reference)
     = [(demo_course_url, demo_pf1), (demo_course_url, demo_pf5), (demo_course_url, demo_pf2),
        (demo_course_url, demo_pf3), (demo_course_url, demo_pf4)]
   \<and> distinct [(demo_course_url, demo_pf1), (demo_course_url, demo_pf5), (demo_course_url, demo_pf2),
        (demo_course_url, demo_pf3), (demo_course_url, demo_pf4)]
   \<and> map origin_key (origins (scan_courses demo_lib demo_session demo_courses demo_reference))
     = [(demo_course_url, demo_pf1), (demo_course_url, demo_pf2), (demo_course_url, demo_pf4)]
   \<and> distinct [(demo_course_url, demo_pf1), (demo_course_url, demo_pf2), (demo_course_url, demo_pf4)]"
proof -
  note t = scan_dedup[of demo_lib demo_session demo_courses demo_reference]
  have l: "lookups (scan_courses demo_lib demo_session demo_courses demo_reference)
     = [(demo_course_url, demo_pf1), (demo_course_url, demo_pf5), (demo_course_url, demo_pf2),
        (demo_course_url, demo_pf3), (demo_course_url, demo_pf4)]"
    unfolding demo_scan by (simp add: demo_final_state_def)
  have k: "map origin_key (origins (scan_courses demo_lib demo_session demo_courses demo_reference))
     = [(demo_course_url, demo_pf1), (demo_course_url, demo_pf2), (demo_course_url, demo_pf4)]"
    unfolding demo_scan by (simp add: demo_final_state_def origin_key_def)
  from t have "distinct (lookups (scan_courses demo_lib demo_session demo_courses demo_reference))"
    "distinct (map origin_key (origins (scan_courses demo_lib demo_session demo_courses demo_reference)))"
    by blast+
  then have "distinct [(demo_course_url, demo_pf1), (demo_course_url, demo_pf5), (demo_course_url, demo_pf2),
        (demo_course_url, demo_pf3), (demo_course_url, demo_pf4)]"
     "distinct [(demo_course_url, demo_pf1), (demo_course_url, demo_pf2), (demo_course_url, demo_pf4)]"
    unfolding l k by blast+
  with l k show ?thesis by blast
qed

subsection \<open>Links and names\<close>

lemma view_in_url:
  "sublist RESOURCE_VIEW RESOURCE_VIEW_URL" "sublist FOLDER_VIEW FOLDER_VIEW_URL"
  "sublist ASSIGN_VIEW ASSIGN_VIEW_URL"
  unfolding RESOURCE_VIEW_def RESOURCE_VIEW_URL_def FOLDER_VIEW_def FOLDER_VIEW_URL_def
    ASSIGN_VIEW_def ASSIGN_VIEW_URL_def
  by code_simp+

lemma normalize_activity: "is_activity_href act \<Longrightarrow> normalize_link_for_print act pf = act"
  unfolding normalize_link_for_print_def is_activity_href_def
  using view_in_url sublist_order.order_trans by metis

lemma visit_file_matches:
  assumes inv: "list_all2 (record_matches_origin L) (found st) (origins st)"
    and new: "\<And>t. record_matches_origin L
        \<lparr>course_name_raw = raw, course_name_display = disp, file_name = fname,
          last_modified_il = t, link = lnk\<rparr>
        \<lparr>origin_course_url = cu, origin_file_url = pf, origin_path = how\<rparr>"
  shows "list_all2 (record_matches_origin L)
           (found (visit_file L S ref raw disp cu pf how fname lnk st))
           (origins (visit_file L S ref raw disp cu pf how fname lnk st))"
proof (cases rule: visit_file_cases[of cu pf st L S ref raw disp how fname lnk])
  case (added t h1)
  then show ?thesis using inv new[of t] by (simp add: list_all2_appendI)
qed (use inv in auto)

lemma records_match_origins:
  "list_all2 (record_matches_origin L) (found (scan_courses L S courses ref))
     (origins (scan_courses L S courses ref))"
  (is "?M (scan_courses L S courses ref)")
proof (rule scan_courses_preserves[where P = ?M])
  show "?M initial_state" by (simp add: initial_state_def)
next
  fix st :: scan_state and h
  assume "?M st"
  then show "?M (st\<lparr>history := h\<rparr>)" by simp
next
  fix raw cu pf and st :: scan_state
  assume "?M st"
  then show "?M (visit_direct L S ref raw (course_display_name L raw) cu pf st)"
    unfolding visit_direct_def
    by (rule visit_file_matches) (simp add: record_matches_origin_def)
next
  fix raw cu act pf and st :: scan_state
  assume a: "is_activity_href act" and m: "?M st"
  show "?M (visit_resolved L S ref raw (course_display_name L raw) cu act pf st)"
    unfolding visit_resolved_def using m
    by (rule visit_file_matches) (simp add: record_matches_origin_def normalize_activity[OF a])
next
  fix raw cu act and item :: "ustr \<times> ustr" and st :: scan_state
  assume a: "is_activity_href act" and m: "?M st"
  obtain pf lbl where i: "item = (pf, lbl)" by (cases item)
  show "?M (visit_scraped L S ref raw (course_display_name L raw) cu act item st)"
  proof (cases "sublist PLUGINFILE pf")
    case True
    have "?M (visit_file L S ref raw (course_display_name L raw) cu pf (Scraped act lbl)
                 (if strip lbl \<noteq> [] then strip lbl else safe_filename_from_url L pf)
                 (normalize_link_for_print act pf) st)"
      using m by (rule visit_file_matches) (simp add: record_matches_origin_def normalize_activity[OF a])
    then show ?thesis by (simp add: visit_scraped_def i True)
  next
    case False
    then show ?thesis using m by (simp add: visit_scraped_def i)
  qed
qed

text \<open>
  Claim C8, amended. Every record of a file reached through an activity link (a resource
  view resolved by the resolver, or a folder or assignment page scraped by the scan)
  stores the activity URL as its link, and the record of a direct file link stores the
  file URL. The file name is the anchor text when the file was scraped from a folder or
  assignment page and that text is not blank; otherwise it is the name derived from the
  resolved URL's path (the last path segment, percent-decoded and trimmed) when that name
  is not empty, and the resolved URL itself when it is empty.
\<close>
theorem record_link_and_name:
  "list_all2 (record_matches_origin L) (found (scan_courses L S courses reference_dt))
     (origins (scan_courses L S courses reference_dt))
   \<and> mset (scan_all L S courses reference_dt) = mset (found (scan_courses L S courses reference_dt))
   \<and> (path_name L u \<noteq> [] \<longrightarrow> safe_filename_from_url L u = path_name L u)
   \<and> (path_name L u = [] \<longrightarrow> safe_filename_from_url L u = u)"
  using records_match_origins[of L S courses reference_dt]
  by (simp add: scan_all_def safe_filename_from_url_def path_name_def)

text \<open>
  The three records of the small portal: a direct link, a labelled folder entry and a
  resolved resource view; and the two cases of the name derived from a URL.
\<close>

theorem record_link_and_name_witness:
  "found (scan_courses demo_lib demo_session demo_courses demo_reference)
     = [demo_record_a, demo_record_b, demo_record_d]
   \<and> link demo_record_a = demo_pf1 \<and> file_name demo_record_a = U ''a.pdf''
   \<and> link demo_record_b = demo_folder \<and> file_name demo_record_b = U ''Notes''
   \<and> link demo_record_d = demo_res2 \<and> file_name demo_record_d = U ''d.pdf''
   \<and> path_name demo_lib demo_pf4 = U ''d.pdf''
   \<and> safe_filename_from_url demo_lib demo_pf4 = U ''d.pdf''
   \<and> path_name demo_lib demo_slash = []
   \<and> safe_filename_from_url demo_lib demo_slash = demo_slash"
proof -
  note t1 = record_link_and_name[of demo_lib demo_session demo_courses demo_reference demo_pf4]
  note t2 = record_link_and_name[of demo_lib demo_session demo_courses demo_reference demo_slash]
  have f: "found (scan_courses demo_lib demo_session demo_courses demo_reference)
     = [demo_record_a, demo_record_b, demo_record_d]"
    unfolding demo_scan by (simp add: demo_final_state_def)
  have v: "link demo_record_a = demo_pf1 \<and> file_name demo_record_a = U ''a.pdf''
   \<and> link demo_record_b = demo_folder \<and> file_name demo_record_b = U ''Notes''
   \<and> link demo_record_d = demo_res2 \<and> file_name demo_record_d = U ''d.pdf''"
    by (simp add: demo_record_a_def demo_record_b_def demo_record_d_def)
  have n: "path_name demo_lib demo_pf4 = U ''d.pdf''"
    "U ''d.pdf'' \<noteq> []"
    "path_name demo_lib demo_slash = []"
    by code_simp+
  from t1 n(1,2) have s1: "safe_filename_from_url demo_lib demo_pf4 = U ''d.pdf''" by metis
  from t2 n(3) have s2: "safe_filename_from_url demo_lib demo_slash = demo_slash" by blast
  from f v n(1,3) s1 s2 show ?thesis by blast
qed

text \<open>
  The claim as the specification words it fails for a direct link whose path ends in a
  slash: the name derived from the path is empty, and the record is named by the whole URL.
\<close>

theorem file_name_not_from_path:
  "scan_all demo_lib demo_session [(U ''Seminar XYZ'', demo_course2_url)] demo_reference
     = [demo_record_z]
   \<and> origins (scan_courses demo_lib demo_session [(U ''Seminar XYZ'', demo_course2_url)] demo_reference)
     = [\<lparr>origin_course_url = demo_course2_url, origin_file_url = demo_slash,
          origin_path = Direct_link\<rparr>]
   \<and> file_name demo_record_z
       \<noteq> spec_file_name demo_lib \<lparr>origin_course_url = demo_course2_url,
            origin_file_url = demo_slash, origin_path = Direct_link\<rparr>"
  by code_simp

subsection \<open>Order of the report\<close>

text \<open>
  Claim C2. The specification promises a report sorted by course display name, then by
  modification timestamp ascending, oldest change first, then by file name compared
  case-insensitively. The source sorts by the tuple of display name, \<open>last_modified_il\<close> and
  lower-cased file name; the timestamps all carry \<open>TZ_IL\<close> (lemma \<open>found_tz\<close>), so Python
  orders them by their wall-clock fields. In the night summer time ends the report of one
  course lists \<open>y.pdf\<close>, modified at 23:10 UTC and shown as 01:10, before \<open>x.pdf\<close>, modified
  at 22:50 UTC and shown as 01:50: the newer change comes first.
\<close>

theorem report_order_fold_hour:
  "scan_all fold_lib fold_session fold_courses fold_evening = [fold_record_y, fold_record_x]
   \<and> course_name_display fold_record_y = course_name_display fold_record_x
   \<and> utc_instant fold_lib (last_modified_il fold_record_y) = T1 + 23 * HOUR + 10 * MINUTE
   \<and> utc_instant fold_lib (last_modified_il fold_record_x) = T1 + 22 * HOUR + 50 * MINUTE
   \<and> utc_instant fold_lib (last_modified_il fold_record_x)
       < utc_instant fold_lib (last_modified_il fold_record_y)"
  by code_simp

end
